theory Spec2Isabelle
  imports Main
begin

section \<open>Constants of the package\<close>

definition ContentType :: string where
  "ContentType = ''Content-Type''"

definition ContentJSON :: string where
  "ContentJSON = ''application/json''"

definition ContentHTML :: string where
  "ContentHTML = ''text/html''"

definition ContentXML :: string where
  "ContentXML = ''text/xml''"

definition defaultCharset :: string where
  "defaultCharset = ''UTF-8''"

definition StatusFound :: int where
  "StatusFound = 302"

definition StatusInternalServerError :: int where
  "StatusInternalServerError = 500"

section \<open>The string functions used by getExt\<close>

text \<open>
  \<open>strings.Index(s, ".")\<close>, \<open>strings.Split(s, ".")\<close> and \<open>strings.Join(parts, ".")\<close>
  are only ever called with the one-byte separator \<open>"."\<close>; the separator is a
  character here. \<open>strings_Index\<close> returns \<open>-1\<close> when the byte does not occur.
\<close>

fun index_from :: "char \<Rightarrow> string \<Rightarrow> nat \<Rightarrow> int" where
  "index_from c [] i = -1"
| "index_from c (x # xs) i = (if x = c then int i else index_from c xs (Suc i))"

definition strings_Index :: "string \<Rightarrow> char \<Rightarrow> int" where
  "strings_Index s c = index_from c s 0"

fun strings_Split :: "string \<Rightarrow> char \<Rightarrow> string list" where
  "strings_Split [] c = [[]]"
| "strings_Split (x # xs) c =
     (if x = c then [] # strings_Split xs c
      else (case strings_Split xs c of
              [] \<Rightarrow> [[x]]
            | w # ws \<Rightarrow> (x # w) # ws))"

fun strings_Join :: "string list \<Rightarrow> char \<Rightarrow> string" where
  "strings_Join [] c = []"
| "strings_Join [w] c = w"
| "strings_Join (w # v # ws) c = w @ c # strings_Join (v # ws) c"

definition getExt :: "string \<Rightarrow> string" where
  "getExt s =
     (if strings_Index s (CHR ''.'') = -1 then []
      else CHR ''.'' # strings_Join (drop 1 (strings_Split s (CHR ''.''))) (CHR ''.''))"

section \<open>Options\<close>

text \<open>
  The two lists of user function maps (\<open>HtmlFuncs\<close>, \<open>TextFuncs\<close>) are left out: the
  templates of this development call the two helpers \<open>yield\<close> and \<open>current\<close> only, and
  compile installs those after the user's maps. \<open>Extra\<close> is a Go map from strings to
  strings, kept as its list of entries (the keys of a Go map are distinct).
\<close>

record Options =
  Directory :: string
  Layout :: string
  Extensions :: "string list"
  Delims_Left :: string
  Delims_Right :: string
  Charset :: string
  IndentJSON :: bool
  IndentXML :: bool
  PrefixJSON :: string
  PrefixXML :: string
  HTMLContentType :: string
  Extra :: "(string \<times> string) list"

record HTMLOptions =
  HTMLOptions_Layout :: string
  HTMLOptions_Extra :: "(string \<times> string) list"

definition zero_Options :: Options where
  "zero_Options =
     \<lparr>Directory = [], Layout = [], Extensions = [], Delims_Left = [], Delims_Right = [],
      Charset = [], IndentJSON = False, IndentXML = False, PrefixJSON = [], PrefixXML = [],
      HTMLContentType = [], Extra = []\<rparr>"

definition prepareCharset :: "string \<Rightarrow> string" where
  "prepareCharset charset =
     (if length charset \<noteq> 0 then ''; charset='' @ charset
      else ''; charset='' @ defaultCharset)"

definition prepareOptions :: "Options list \<Rightarrow> Options" where
  "prepareOptions options =
     (let opt0 = (case options of [] \<Rightarrow> zero_Options | x # _ \<Rightarrow> x);
          opt1 = (if length (Directory opt0) = 0
                  then opt0\<lparr>Directory := ''templates''\<rparr> else opt0);
          opt2 = (if length (Extensions opt1) = 0
                  then opt1\<lparr>Extensions := [''.tmpl'']\<rparr> else opt1);
          opt3 = (if length (HTMLContentType opt2) = 0
                  then opt2\<lparr>HTMLContentType := ContentHTML\<rparr> else opt2)
      in opt3)"

section \<open>Values, errors and the template trees\<close>

text \<open>
  A value of Go's \<open>interface{}\<close>: \<open>nil\<close>, a string, a \<open>map[string]interface{}\<close> (a
  reference into the store of maps, or the nil map of that type), or any other value,
  which the renderer only hands on to the libraries.
\<close>

datatype 'a val =
    VNil
  | VStr string
  | VMap nat
  | VNilMap
  | VOther 'a

text \<open>
  Errors. \<open>Lib_error\<close> is an error reported by a library with its message;
  \<open>Undefined_template\<close> is what \<open>ExecuteTemplate\<close> returns for a name the tree does not
  hold; \<open>Yield_no_layout\<close> is the error of the placeholder \<open>yield\<close> helper;
  \<open>Exec_error t e\<close> is the template engine's report that executing template \<open>t\<close>
  failed with \<open>e\<close> in a helper call; \<open>Nil_map_assignment\<close> is the run-time panic of an
  assignment to an entry of a nil map.
\<close>

datatype go_error =
    Lib_error string
  | Undefined_template string
  | Yield_no_layout
  | Exec_error string go_error
  | Nil_map_assignment

text \<open>
  Templates: the development covers template bodies made of literal text and calls of
  the two helpers, with every action standing in HTML element content.
\<close>

datatype node = NText string | NYield | NCurrent

datatype tree_kind = Escaping | Plain

text \<open>
  The \<open>yield\<close> entry of a tree's function table: the placeholder installed by compile,
  or a closure made by \<open>addYieldHtml\<close> (it calls \<open>executeHtml\<close>) or by \<open>addYieldText\<close>
  (it calls \<open>executeText\<close>), holding the name and the binding it captured. The
  \<open>current\<close> entry returns a fixed name: empty for the placeholder.
\<close>

datatype 'a yield_helper =
    Yield_placeholder
  | Yield_closure tree_kind string "'a val"

record 'a tree =
  root_name :: string
  templates :: "string \<rightharpoonup> node list"
  yield_fn :: "'a yield_helper"
  current_fn :: string

section \<open>The libraries and the file system\<close>

text \<open>
  What the renderer calls and does not define: the JSON and XML encoders (the store is
  an argument, since a value may refer to maps), the template parser with its two
  delimiters, \<open>filepath.Rel\<close>, and the path separator of the platform.
\<close>

record 'a go_lib =
  json_Marshal :: "(nat \<Rightarrow> string \<rightharpoonup> 'a val) \<Rightarrow> 'a val \<Rightarrow> go_error + string"
  json_MarshalIndent ::
    "(nat \<Rightarrow> string \<rightharpoonup> 'a val) \<Rightarrow> 'a val \<Rightarrow> string \<Rightarrow> string \<Rightarrow> go_error + string"
  xml_Marshal :: "(nat \<Rightarrow> string \<rightharpoonup> 'a val) \<Rightarrow> 'a val \<Rightarrow> go_error + string"
  xml_MarshalIndent ::
    "(nat \<Rightarrow> string \<rightharpoonup> 'a val) \<Rightarrow> 'a val \<Rightarrow> string \<Rightarrow> string \<Rightarrow> go_error + string"
  template_Parse :: "string \<Rightarrow> string \<Rightarrow> string \<Rightarrow> go_error + node list"
  filepath_Rel :: "string \<Rightarrow> string \<Rightarrow> go_error + string"
  filepath_Separator :: char

text \<open>
  The file system as compile sees it: \<open>walk_visits dir\<close> lists the calls that
  \<open>filepath.Walk(dir, fn)\<close> makes to \<open>fn\<close> while \<open>fn\<close> returns nil, each with its path
  and the error argument Walk passes (a failed \<open>Lstat\<close> or directory read);
  \<open>ioutil_ReadFile\<close> is the result of reading a path.
\<close>

record fsys =
  walk_visits :: "string \<Rightarrow> (string \<times> go_error option) list"
  ioutil_ReadFile :: "string \<Rightarrow> go_error + string"

definition filepath_ToSlash :: "'a go_lib \<Rightarrow> string \<Rightarrow> string" where
  "filepath_ToSlash lib p =
     (if filepath_Separator lib = CHR ''/'' then p
      else map (\<lambda>c. if c = filepath_Separator lib then CHR ''/'' else c) p)"

section \<open>compile\<close>

text \<open>
  \<open>New(name)\<close> followed by \<open>Parse\<close> on a name: the tree holds the parsed body under
  that name. A name that the tree holds already is given the new body; what the
  template packages do on such a name differs between their versions, and the theorems
  on the registered templates take the names to be distinct.
\<close>

definition tree_New :: "string \<Rightarrow> 'a tree" where
  "tree_New dir =
     \<lparr>root_name = dir, templates = Map.empty, yield_fn = Yield_placeholder,
      current_fn = []\<rparr>"

definition tree_define :: "string \<Rightarrow> node list \<Rightarrow> 'a tree \<Rightarrow> 'a tree" where
  "tree_define name body t = t\<lparr>templates := (templates t)(name \<mapsto> body)\<rparr>"

text \<open>
  The loop over the configured extensions in the walk function, with its \<open>break\<close>.
  A failed read panics, and so does a failed parse (\<open>Must\<close>): \<open>Inl\<close> is the panic.
\<close>

fun match_extensions ::
  "'a go_lib \<Rightarrow> fsys \<Rightarrow> Options \<Rightarrow> string \<Rightarrow> string \<Rightarrow> string \<Rightarrow> string list \<Rightarrow>
   'a tree \<times> 'a tree \<Rightarrow> go_error + ('a tree \<times> 'a tree)" where
  "match_extensions lib fs options path r ext [] (ht, tt) = Inr (ht, tt)"
| "match_extensions lib fs options path r ext (extension # rest) (ht, tt) =
     (if ext = extension then
        (case ioutil_ReadFile fs path of
           Inl e \<Rightarrow> Inl e
         | Inr buf \<Rightarrow>
             (let name = take (length r - length ext) r in
              (case template_Parse lib (Delims_Left options) (Delims_Right options) buf of
                 Inl e \<Rightarrow> Inl e
               | Inr hbody \<Rightarrow>
                   (case template_Parse lib (Delims_Left options) (Delims_Right options) buf of
                      Inl e \<Rightarrow> Inl e
                    | Inr tbody \<Rightarrow>
                        Inr (tree_define (filepath_ToSlash lib name) hbody ht,
                             tree_define (filepath_ToSlash lib name) tbody tt)))))
      else match_extensions lib fs options path r ext rest (ht, tt))"

text \<open>
  The function passed to \<open>filepath.Walk\<close>. Its \<open>err\<close> parameter is overwritten by the
  result of \<open>filepath.Rel\<close> before it is read. The function returns an error only when
  \<open>Rel\<close> fails; the result is the panic, or the returned error with the trees.
\<close>

definition walk_fn ::
  "'a go_lib \<Rightarrow> fsys \<Rightarrow> Options \<Rightarrow> string \<times> go_error option \<Rightarrow> 'a tree \<times> 'a tree \<Rightarrow>
   go_error + (go_error option \<times> ('a tree \<times> 'a tree))" where
  "walk_fn lib fs options visit trees =
     (case filepath_Rel lib (Directory options) (fst visit) of
        Inl e \<Rightarrow> Inr (Some e, trees)
      | Inr r \<Rightarrow>
          (case match_extensions lib fs options (fst visit) r (getExt r)
                  (Extensions options) trees of
             Inl e \<Rightarrow> Inl e
           | Inr trees' \<Rightarrow> Inr (None, trees')))"

text \<open>
  \<open>filepath.Walk\<close> over the visits: it stops at the first error the function returns
  and returns it.
\<close>

fun filepath_Walk ::
  "('v \<Rightarrow> 's \<Rightarrow> go_error + (go_error option \<times> 's)) \<Rightarrow> 'v list \<Rightarrow> 's \<Rightarrow>
   go_error + (go_error option \<times> 's)" where
  "filepath_Walk fn [] s = Inr (None, s)"
| "filepath_Walk fn (v # vs) s =
     (case fn v s of
        Inl e \<Rightarrow> Inl e
      | Inr (Some e, s') \<Rightarrow> Inr (Some e, s')
      | Inr (None, s') \<Rightarrow> filepath_Walk fn vs s')"

text \<open>
  compile: both trees get the placeholder template \<open>Martini\<close> under the directory's
  name, then the walk runs; what \<open>filepath.Walk\<close> returns is dropped.
\<close>

definition compile ::
  "'a go_lib \<Rightarrow> fsys \<Rightarrow> Options \<Rightarrow> go_error + ('a tree \<times> 'a tree)" where
  "compile lib fs options =
     (let dir = Directory options in
      (case template_Parse lib (Delims_Left options) (Delims_Right options) ''Martini'' of
         Inl e \<Rightarrow> Inl e
       | Inr hbody \<Rightarrow>
           (case template_Parse lib (Delims_Left options) (Delims_Right options) ''Martini'' of
              Inl e \<Rightarrow> Inl e
            | Inr tbody \<Rightarrow>
                (case filepath_Walk (walk_fn lib fs options) (walk_visits fs dir)
                        (tree_define dir hbody (tree_New dir),
                         tree_define dir tbody (tree_New dir)) of
                   Inl e \<Rightarrow> Inl e
                 | Inr (_, trees) \<Rightarrow> Inr trees))))"

section \<open>The response writer, the buffer pool and the renderer\<close>

text \<open>
  The renderer embeds an \<open>http.ResponseWriter\<close>, an interface: the model keeps the
  calls made on it, oldest first. \<open>http.Error(w, err.Error(), code)\<close> and
  \<open>http.Redirect(w, req, location, code)\<close> are calls into \<open>net/http\<close> and are kept as
  such, the first with the error whose text it is given.
\<close>

datatype call =
    Header_Set string string
  | WriteHeader int
  | Write string
  | http_Error go_error int
  | http_Redirect string int

text \<open>The bytes handed to \<open>Write\<close>, in order.\<close>

fun written :: "call list \<Rightarrow> string" where
  "written [] = []"
| "written (Write b # cs) = b @ written cs"
| "written (c # cs) = written cs"

text \<open>
  What \<open>net/http\<close> does on such a call is not code of this package. Its \<open>http.Error\<close>
  sets the headers \<open>Content-Type: text/plain; charset=utf-8\<close> and
  \<open>X-Content-Type-Options: nosniff\<close>, writes the status code, and prints the text it is
  given with \<open>fmt.Fprintln\<close>, that is, followed by a newline (its newer versions first
  delete headers that this package never sets). \<open>net_http txt\<close> replaces every
  \<open>http.Error\<close> of a list of calls by these calls on the writer, \<open>txt\<close> giving the text
  of an error, the result of its method \<open>Error()\<close>.
\<close>

definition http_Error_calls :: "string \<Rightarrow> int \<Rightarrow> call list" where
  "http_Error_calls text code =
     [Header_Set ''Content-Type'' ''text/plain; charset=utf-8'',
      Header_Set ''X-Content-Type-Options'' ''nosniff'',
      WriteHeader code,
      Write (text @ [CHR 0x0A])]"

fun net_http :: "(go_error \<Rightarrow> string) \<Rightarrow> call list \<Rightarrow> call list" where
  "net_http txt [] = []"
| "net_http txt (http_Error e code # cs) = http_Error_calls (txt e) code @ net_http txt cs"
| "net_http txt (c # cs) = c # net_http txt cs"

text \<open>
  \<open>bpool.BufferPool\<close>: a channel of at most \<open>pool_size\<close> buffers, every one of them
  reset. \<open>Get\<close> takes one from the channel or makes a new one; \<open>Put\<close> resets the buffer
  and sends it to the channel unless the channel is full. \<open>gets\<close> and \<open>puts\<close> count
  the calls.
\<close>

record BufferPool =
  pool_size :: nat
  pooled :: nat
  gets :: nat
  puts :: nat

definition NewBufferPool :: "nat \<Rightarrow> BufferPool" where
  "NewBufferPool n = \<lparr>pool_size = n, pooled = 0, gets = 0, puts = 0\<rparr>"

definition BufferPool_Get :: "BufferPool \<Rightarrow> BufferPool" where
  "BufferPool_Get p =
     p\<lparr>pooled := (if 0 < pooled p then pooled p - 1 else 0), gets := Suc (gets p)\<rparr>"

definition BufferPool_Put :: "BufferPool \<Rightarrow> BufferPool" where
  "BufferPool_Put p =
     p\<lparr>pooled := (if pooled p < pool_size p then Suc (pooled p) else pooled p),
       puts := Suc (puts p)\<rparr>"

text \<open>
  The renderer struct (its request is only handed on to \<open>http.Redirect\<close>), extended
  with the state of the process that its methods touch: the store of the maps that
  bindings refer to, the package's buffer pool, and the lines printed to standard
  output.
\<close>

record 'a renderer =
  ResponseWriter :: "call list"
  ht :: "'a tree"
  tt :: "'a tree"
  opt :: Options
  compiledCharset :: string

record 'a world = "'a renderer" +
  heap :: "nat \<Rightarrow> string \<rightharpoonup> 'a val"
  bufpool :: BufferPool
  stdout :: "string list"

definition tree_of :: "tree_kind \<Rightarrow> 'a world \<Rightarrow> 'a tree" where
  "tree_of k w = (case k of Escaping \<Rightarrow> ht w | Plain \<Rightarrow> tt w)"

section \<open>Template execution\<close>

text \<open>
  The escaper of \<open>html/template\<close> for a string in element content; a value of type
  \<open>template.HTML\<close> is written as it is.
\<close>

definition html_escape_char :: "char \<Rightarrow> string" where
  "html_escape_char c =
     (if c = CHR 0x00 then [CHR 0xEF, CHR 0xBF, CHR 0xBD]
      else if c = CHR 0x22 then ''&#34;''
      else if c = CHR ''&'' then ''&amp;''
      else if c = CHR 0x27 then ''&#39;''
      else if c = CHR ''+'' then ''&#43;''
      else if c = CHR ''<'' then ''&lt;''
      else if c = CHR ''>'' then ''&gt;''
      else [c])"

definition html_escape :: "string \<Rightarrow> string" where
  "html_escape s = concat (map html_escape_char s)"

definition print_string :: "tree_kind \<Rightarrow> string \<Rightarrow> string" where
  "print_string k s = (case k of Escaping \<Rightarrow> html_escape s | Plain \<Rightarrow> s)"

text \<open>
  \<open>execute Escaping\<close> is \<open>executeHtml\<close> and \<open>execute Plain\<close> is \<open>executeText\<close>: a buffer is
  taken from the pool and \<open>ExecuteTemplate\<close> runs on it; the result is the buffer's
  contents and the error. \<open>run_nodes\<close> is the engine on one template body: a call of
  \<open>yield\<close> runs the helper that the tree's function table holds at that moment. The
  first argument bounds the depth of nested executions: \<open>None\<close> is an execution that
  nests without end.
\<close>

fun execute ::
  "nat \<Rightarrow> tree_kind \<Rightarrow> string \<Rightarrow> 'a val \<Rightarrow> 'a world \<Rightarrow>
   ((string \<times> go_error option) \<times> 'a world) option"
and run_nodes ::
  "nat \<Rightarrow> tree_kind \<Rightarrow> string \<Rightarrow> node list \<Rightarrow> string \<Rightarrow> 'a world \<Rightarrow>
   ((string \<times> go_error option) \<times> 'a world) option" where
  "execute 0 k name binding w = None"
| "execute (Suc n) k name binding w =
     (let w1 = w\<lparr>bufpool := BufferPool_Get (bufpool w)\<rparr> in
      (case templates (tree_of k w1) name of
         None \<Rightarrow> Some (([], Some (Undefined_template name)), w1)
       | Some body \<Rightarrow> run_nodes n k name body [] w1))"
| "run_nodes n k t [] buf w = Some ((buf, None), w)"
| "run_nodes n k t (NText s # ns) buf w = run_nodes n k t ns (buf @ s) w"
| "run_nodes n k t (NCurrent # ns) buf w =
     run_nodes n k t ns (buf @ print_string k (current_fn (tree_of k w))) w"
| "run_nodes n k t (NYield # ns) buf w =
     (case yield_fn (tree_of k w) of
        Yield_placeholder \<Rightarrow> Some ((buf, Some (Exec_error t Yield_no_layout)), w)
      | Yield_closure k' name' binding' \<Rightarrow>
          (case execute n k' name' binding' w of
             None \<Rightarrow> None
           | Some ((out, Some e), w') \<Rightarrow> Some ((buf, Some (Exec_error t e)), w')
           | Some ((out, None), w') \<Rightarrow> run_nodes n k t ns (buf @ out) w'))"

definition executeHtml ::
  "nat \<Rightarrow> string \<Rightarrow> 'a val \<Rightarrow> 'a world \<Rightarrow> ((string \<times> go_error option) \<times> 'a world) option" where
  "executeHtml fuel name binding w = execute fuel Escaping name binding w"

definition executeText ::
  "nat \<Rightarrow> string \<Rightarrow> 'a val \<Rightarrow> 'a world \<Rightarrow> ((string \<times> go_error option) \<times> 'a world) option" where
  "executeText fuel name binding w = execute fuel Plain name binding w"

section \<open>The renderer's methods\<close>

definition respond :: "call list \<Rightarrow> 'a world \<Rightarrow> 'a world" where
  "respond cs w = w\<lparr>ResponseWriter := ResponseWriter w @ cs\<rparr>"

definition prepareHTMLOptions :: "'a world \<Rightarrow> HTMLOptions list \<Rightarrow> HTMLOptions" where
  "prepareHTMLOptions w htmlOpt =
     (case htmlOpt of
        x # _ \<Rightarrow> x
      | [] \<Rightarrow> \<lparr>HTMLOptions_Layout = Layout (opt w), HTMLOptions_Extra = Extra (opt w)\<rparr>)"

text \<open>
  Both functions install their helpers with \<open>r.ht.Funcs(funcs)\<close>, the function table of
  the escaping tree; the closure of \<open>addYieldText\<close> calls \<open>executeText\<close>.
\<close>

definition addYieldHtml :: "string \<Rightarrow> 'a val \<Rightarrow> 'a world \<Rightarrow> 'a world" where
  "addYieldHtml name binding w =
     w\<lparr>ht := (ht w)\<lparr>yield_fn := Yield_closure Escaping name binding, current_fn := name\<rparr>\<rparr>"

definition addYieldText :: "string \<Rightarrow> 'a val \<Rightarrow> 'a world \<Rightarrow> 'a world" where
  "addYieldText name binding w =
     w\<lparr>ht := (ht w)\<lparr>yield_fn := Yield_closure Plain name binding, current_fn := name\<rparr>\<rparr>"

definition JSON :: "'a go_lib \<Rightarrow> int \<Rightarrow> 'a val \<Rightarrow> 'a world \<Rightarrow> 'a world" where
  "JSON lib status v w =
     (case (if IndentJSON (opt w) then json_MarshalIndent lib (heap w) v [] ''  ''
            else json_Marshal lib (heap w) v) of
        Inl err \<Rightarrow> respond [http_Error err 500] w
      | Inr result \<Rightarrow>
          respond
            ([Header_Set ContentType (ContentJSON @ compiledCharset w), WriteHeader status]
             @ (if length (PrefixJSON (opt w)) > 0 then [Write (PrefixJSON (opt w))] else [])
             @ [Write result]) w)"

definition XML :: "'a go_lib \<Rightarrow> int \<Rightarrow> 'a val \<Rightarrow> 'a world \<Rightarrow> 'a world" where
  "XML lib status v w =
     (case (if IndentXML (opt w) then xml_MarshalIndent lib (heap w) v [] ''  ''
            else xml_Marshal lib (heap w) v) of
        Inl err \<Rightarrow> respond [http_Error err 500] w
      | Inr result \<Rightarrow>
          respond
            ([Header_Set ContentType (ContentXML @ compiledCharset w), WriteHeader status]
             @ (if length (PrefixXML (opt w)) > 0 then [Write (PrefixXML (opt w))] else [])
             @ [Write result]) w)"

text \<open>
  The loop \<open>for k, v := range opt.Extra { temp_binding[k] = v }\<close> on the map that the
  binding refers to.
\<close>

fun merge_extra :: "(string \<times> string) list \<Rightarrow> (string \<rightharpoonup> 'a val) \<Rightarrow> (string \<rightharpoonup> 'a val)" where
  "merge_extra [] m = m"
| "merge_extra ((k, v) # kvs) m = merge_extra kvs (m(k \<mapsto> VStr v))"

text \<open>
  The end of \<open>HTML\<close> and of \<open>TEXT\<close>: on an error of the execution, \<open>http.Error\<close> and
  return; otherwise the header, the status, \<open>io.Copy\<close> of the buffer (which calls
  \<open>Write\<close> once if the buffer holds bytes, and not at all if it is empty), and the
  buffer goes back to the pool.
\<close>

definition write_result ::
  "int \<Rightarrow> (string \<times> go_error option) \<times> 'a world \<Rightarrow> 'a world" where
  "write_result status res =
     (case res of
        ((buf, Some err), w) \<Rightarrow> respond [http_Error err StatusInternalServerError] w
      | ((buf, None), w) \<Rightarrow>
          (respond
             ([Header_Set ContentType (HTMLContentType (opt w) @ compiledCharset w),
               WriteHeader status]
              @ (if buf = [] then [] else [Write buf])) w)
          \<lparr>bufpool := BufferPool_Put (bufpool w)\<rparr>)"

text \<open>
  The merge of \<open>HTML\<close>: the type assertion \<open>binding.(map[string]interface{})\<close> yields
  the map that the caller passed, and the loop assigns into it. \<open>Inl\<close> is the panic of
  an assignment into the nil map.
\<close>

definition merge_binding ::
  "(string \<times> string) list \<Rightarrow> 'a val \<Rightarrow> 'a world \<Rightarrow> go_error + 'a world" where
  "merge_binding extra binding w =
     (case binding of
        VMap a \<Rightarrow> Inr (w\<lparr>heap := (heap w)(a := merge_extra extra (heap w a))\<rparr>)
      | VNilMap \<Rightarrow> (if extra = [] then Inr w else Inl Nil_map_assignment)
      | _ \<Rightarrow> Inr w)"

text \<open>
  The dump of \<open>HTML\<close>: \<open>json.MarshalIndent(binding, "", " ")\<close> is printed when it
  succeeds.
\<close>

definition dump_binding :: "'a go_lib \<Rightarrow> 'a val \<Rightarrow> 'a world \<Rightarrow> 'a world" where
  "dump_binding lib binding w =
     (case json_MarshalIndent lib (heap w) binding [] '' '' of
        Inl err \<Rightarrow> w
      | Inr b \<Rightarrow> w\<lparr>stdout := stdout w @ [b]\<rparr>)"

text \<open>\<open>HTML\<close>. \<open>Inl\<close> is a panic; \<open>None\<close> is an execution that does not return.\<close>

definition HTML ::
  "nat \<Rightarrow> 'a go_lib \<Rightarrow> int \<Rightarrow> string \<Rightarrow> 'a val \<Rightarrow> HTMLOptions list \<Rightarrow> 'a world \<Rightarrow>
   (go_error + 'a world) option" where
  "HTML fuel lib status name binding htmlOpt w =
     (let opt' = prepareHTMLOptions w htmlOpt;
          w1 = (if length (HTMLOptions_Layout opt') > 0
                then addYieldHtml name binding w else w);
          name1 = (if length (HTMLOptions_Layout opt') > 0
                   then HTMLOptions_Layout opt' else name)
      in (case merge_binding (HTMLOptions_Extra opt') binding w1 of
            Inl e \<Rightarrow> Some (Inl e)
          | Inr w2 \<Rightarrow>
              (case executeHtml fuel name1 binding (dump_binding lib binding w2) of
                 None \<Rightarrow> None
               | Some res \<Rightarrow> Some (Inr (write_result status res)))))"

definition TEXT ::
  "nat \<Rightarrow> int \<Rightarrow> string \<Rightarrow> 'a val \<Rightarrow> HTMLOptions list \<Rightarrow> 'a world \<Rightarrow> 'a world option" where
  "TEXT fuel status name binding htmlOpt w =
     (let opt' = prepareHTMLOptions w htmlOpt;
          w1 = (if length (HTMLOptions_Layout opt') > 0
                then addYieldText name binding w else w);
          name1 = (if length (HTMLOptions_Layout opt') > 0
                   then HTMLOptions_Layout opt' else name)
      in (case executeText fuel name1 binding w1 of
            None \<Rightarrow> None
          | Some res \<Rightarrow> Some (write_result status res)))"

definition Redirect :: "string \<Rightarrow> int list \<Rightarrow> 'a world \<Rightarrow> 'a world" where
  "Redirect location status w =
     (let code = (if length status = 1 then hd status else StatusFound)
      in respond [http_Redirect location code] w)"

section \<open>Renderer\<close>

text \<open>
  \<open>Renderer\<close> prepares the options and the charset suffix, compiles once and makes the
  buffer pool; the handler it returns builds one renderer per request, from a fresh
  compile in development and from a clone of the first compile otherwise.
\<close>

record 'a handler =
  handler_opt :: Options
  handler_cs :: string
  handler_ht :: "'a tree"
  handler_tt :: "'a tree"

definition Renderer ::
  "'a go_lib \<Rightarrow> fsys \<Rightarrow> Options list \<Rightarrow> go_error + ('a handler \<times> BufferPool)" where
  "Renderer lib fs options =
     (let opt' = prepareOptions options;
          cs = prepareCharset (Charset opt')
      in (case compile lib fs opt' of
            Inl e \<Rightarrow> Inl e
          | Inr (ht', tt') \<Rightarrow>
              Inr (\<lparr>handler_opt = opt', handler_cs = cs, handler_ht = ht', handler_tt = tt'\<rparr>,
                   NewBufferPool 64)))"

definition handle ::
  "'a go_lib \<Rightarrow> 'a handler \<Rightarrow> bool \<Rightarrow> fsys \<Rightarrow> call list \<Rightarrow> (nat \<Rightarrow> string \<rightharpoonup> 'a val) \<Rightarrow>
   BufferPool \<Rightarrow> string list \<Rightarrow> go_error + 'a world" where
  "handle lib h dev fs res hp bp out =
     (case (if dev then compile lib fs (handler_opt h)
            else Inr (handler_ht h, handler_tt h)) of
        Inl e \<Rightarrow> Inl e
      | Inr (htc, ttc) \<Rightarrow>
          Inr \<lparr>ResponseWriter = res, ht = htc, tt = ttc, opt = handler_opt h,
               compiledCharset = handler_cs h, heap = hp, bufpool = bp, stdout = out\<rparr>)"

section \<open>An instance of the libraries\<close>

text \<open>
  One instance of the library functions, for running the renderer on examples: an
  encoder of strings and \<open>nil\<close>, a parser of literal text and the two helper calls
  between the default delimiters, and \<open>Rel\<close> for a path below the directory.
\<close>

definition example_json :: "(nat \<Rightarrow> string \<rightharpoonup> unit val) \<Rightarrow> unit val \<Rightarrow> go_error + string" where
  "example_json h v =
     (case v of
        VNil \<Rightarrow> Inr ''null''
      | VStr s \<Rightarrow> Inr ([CHR 0x22] @ s @ [CHR 0x22])
      | _ \<Rightarrow> Inl (Lib_error ''json: unsupported type''))"

definition example_xml :: "(nat \<Rightarrow> string \<rightharpoonup> unit val) \<Rightarrow> unit val \<Rightarrow> go_error + string" where
  "example_xml h v =
     (case v of
        VStr s \<Rightarrow> Inr (''<string>'' @ s @ ''</string>'')
      | _ \<Rightarrow> Inl (Lib_error ''xml: unsupported type''))"

definition action_node :: "string \<Rightarrow> go_error + node" where
  "action_node a =
     (if a = ''yield'' then Inr NYield
      else if a = ''current'' then Inr NCurrent
      else Inl (Lib_error (''function not defined: '' @ a)))"

definition text_node :: "string \<Rightarrow> node list" where
  "text_node s = (if s = [] then [] else [NText s])"

fun scan_text :: "string \<Rightarrow> string \<Rightarrow> go_error + node list"
and scan_action :: "string \<Rightarrow> string \<Rightarrow> go_error + node list" where
  "scan_text acc [] = Inr (text_node acc)"
| "scan_text acc [x] = Inr (text_node (acc @ [x]))"
| "scan_text acc (x # y # zs) =
     (if x = CHR 0x7B \<and> y = CHR 0x7B then
        (case scan_action [] zs of
           Inl e \<Rightarrow> Inl e
         | Inr ns \<Rightarrow> Inr (text_node acc @ ns))
      else scan_text (acc @ [x]) (y # zs))"
| "scan_action acc [] = Inl (Lib_error ''unclosed action'')"
| "scan_action acc [x] = Inl (Lib_error ''unclosed action'')"
| "scan_action acc (x # y # zs) =
     (if x = CHR 0x7D \<and> y = CHR 0x7D then
        (case action_node acc of
           Inl e \<Rightarrow> Inl e
         | Inr n \<Rightarrow>
             (case scan_text [] zs of
                Inl e \<Rightarrow> Inl e
              | Inr ns \<Rightarrow> Inr (n # ns)))
      else scan_action (acc @ [x]) (y # zs))"

definition example_Parse :: "string \<Rightarrow> string \<Rightarrow> string \<Rightarrow> go_error + node list" where
  "example_Parse l r body =
     (if l = [] \<and> r = [] then scan_text [] body
      else Inl (Lib_error ''delimiters not supported''))"

definition example_Rel :: "string \<Rightarrow> string \<Rightarrow> go_error + string" where
  "example_Rel base targ =
     (if targ = base then Inr ''.''
      else if take (Suc (length base)) targ = base @ ''/''
      then Inr (drop (Suc (length base)) targ)
      else Inl (Lib_error ''Rel: can't make path relative''))"

definition example_lib :: "unit go_lib" where
  "example_lib =
     \<lparr>json_Marshal = example_json,
      json_MarshalIndent = (\<lambda>h v prefix indent. example_json h v),
      xml_Marshal = example_xml,
      xml_MarshalIndent = (\<lambda>h v prefix indent. example_xml h v),
      template_Parse = example_Parse,
      filepath_Rel = example_Rel,
      filepath_Separator = CHR ''/''\<rparr>"

text \<open>
  A directory \<open>templates\<close> holding \<open>L.tmpl\<close> and \<open>content.tmpl\<close>, and one holding
  \<open>page.html.tmpl\<close>; a path that is not listed cannot be read.
\<close>

definition example_files :: "(string \<times> string) list \<Rightarrow> fsys" where
  "example_files files =
     \<lparr>walk_visits = (\<lambda>dir. (dir, None) # map (\<lambda>(p, c). (dir @ ''/'' @ p, None)) files),
      ioutil_ReadFile = (\<lambda>path.
        (case map_of (map (\<lambda>(p, c). (''templates/'' @ p, c)) files) path of
           None \<Rightarrow> Inl (Lib_error ''read: is a directory or does not exist'')
         | Some c \<Rightarrow> Inr c))\<rparr>"

definition layout_files :: fsys where
  "layout_files =
     example_files [(''L.tmpl'', ''L[{{yield}}]''), (''content.tmpl'', ''hi'')]"


definition empty_heap :: "nat \<Rightarrow> string \<rightharpoonup> unit val" where
  "empty_heap = (\<lambda>a. Map.empty)"

text \<open>
  The renderer of a request to a server started with no options on the directory of
  the two templates, in production mode, before any of its methods has run.
\<close>

definition layout_tree :: "unit tree" where
  "layout_tree =
     tree_define ''content'' [NText ''hi'']
       (tree_define ''L'' [NText ''L['', NYield, NText '']'']
          (tree_define ''templates'' [NText ''Martini''] (tree_New ''templates'')))"

definition layout_world :: "unit world" where
  "layout_world =
     \<lparr>ResponseWriter = [], ht = layout_tree, tt = layout_tree, opt = prepareOptions [],
      compiledCharset = ''; charset=UTF-8'', heap = empty_heap,
      bufpool = NewBufferPool 64, stdout = []\<rparr>"

definition layout_handler :: "unit handler" where
  "layout_handler =
     \<lparr>handler_opt = prepareOptions [], handler_cs = ''; charset=UTF-8'',
      handler_ht = layout_tree, handler_tt = layout_tree\<rparr>"




text \<open>
  The renderer whose layout \<open>C\<close> has the body \<open>[{{current}}]\<close> and whose template
  \<open>content\<close> has the body \<open>hi\<close>.
\<close>

definition current_tree :: "unit tree" where
  "current_tree =
     tree_define ''content'' [NText ''hi'']
       (tree_define ''C'' [NText ''['', NCurrent, NText '']'']
          (tree_define ''templates'' [NText ''Martini''] (tree_New ''templates'')))"

definition current_world :: "unit world" where
  "current_world =
     \<lparr>ResponseWriter = [], ht = current_tree, tt = current_tree, opt = prepareOptions [],
      compiledCharset = ''; charset=UTF-8'', heap = empty_heap,
      bufpool = NewBufferPool 64, stdout = []\<rparr>"

text \<open>A text for every error.\<close>

fun example_text :: "go_error \<Rightarrow> string" where
  "example_text (Lib_error s) = s"
| "example_text (Undefined_template n) = ''template: no template '' @ n"
| "example_text Yield_no_layout = ''yield called with no layout defined''"
| "example_text (Exec_error t e) = ''template: '' @ t @ '': '' @ example_text e"
| "example_text Nil_map_assignment = ''assignment to entry in nil map''"

section \<open>The names compile registers\<close>







text \<open>
  The extension of a file, as the documentation of \<open>Options\<close> speaks of it, is read here
  on the file's name: \<open>file_name\<close> is what follows the last separator of a relative
  path, \<open>dir_part\<close> what comes before it, \<open>file_ext\<close> the name from its first \<open>.\<close> on,
  and \<open>file_template_name\<close> the relative path without that extension, its separators
  turned into slashes. \<open>getExt\<close> and \<open>template_name\<close> are what the code computes, on
  the relative path as a whole.
\<close>

definition file_name :: "'a go_lib \<Rightarrow> string \<Rightarrow> string" where
  "file_name lib r = rev (takeWhile (\<lambda>c. c \<noteq> filepath_Separator lib) (rev r))"


definition file_ext :: "'a go_lib \<Rightarrow> string \<Rightarrow> string" where
  "file_ext lib r = dropWhile (\<lambda>c. c \<noteq> CHR ''.'') (file_name lib r)"


section \<open>What a call adds to the response\<close>

definition new_calls :: "'a world \<Rightarrow> 'a world \<Rightarrow> call list" where
  "new_calls w w' = drop (length (ResponseWriter w)) (ResponseWriter w')"

section \<open>JSON, XML and Redirect\<close>

lemma new_calls_respond: "new_calls w (respond cs w) = cs"
  by (simp add: new_calls_def respond_def)

lemma JSON_Inr:
  "(if IndentJSON (opt w) then json_MarshalIndent lib (heap w) v [] ''  ''
    else json_Marshal lib (heap w) v) = Inr result \<Longrightarrow>
   JSON lib status v w =
     respond ([Header_Set ContentType (ContentJSON @ compiledCharset w), WriteHeader status]
       @ (if length (PrefixJSON (opt w)) > 0 then [Write (PrefixJSON (opt w))] else [])
       @ [Write result]) w"
  by (simp add: JSON_def)

lemma JSON_Inl:
  "(if IndentJSON (opt w) then json_MarshalIndent lib (heap w) v [] ''  ''
    else json_Marshal lib (heap w) v) = Inl err \<Longrightarrow>
   JSON lib status v w = respond [http_Error err 500] w"
  by (simp add: JSON_def)

lemma XML_Inr:
  "(if IndentXML (opt w) then xml_MarshalIndent lib (heap w) v [] ''  ''
    else xml_Marshal lib (heap w) v) = Inr result \<Longrightarrow>
   XML lib status v w =
     respond ([Header_Set ContentType (ContentXML @ compiledCharset w), WriteHeader status]
       @ (if length (PrefixXML (opt w)) > 0 then [Write (PrefixXML (opt w))] else [])
       @ [Write result]) w"
  by (simp add: XML_def)

lemma XML_Inl:
  "(if IndentXML (opt w) then xml_MarshalIndent lib (heap w) v [] ''  ''
    else xml_Marshal lib (heap w) v) = Inl err \<Longrightarrow>
   XML lib status v w = respond [http_Error err 500] w"
  by (simp add: XML_def)

lemmas example_defs =
  layout_world_def layout_tree_def example_lib_def example_json_def example_xml_def
  prepareOptions_def zero_Options_def empty_heap_def NewBufferPool_def
  ContentType_def ContentJSON_def ContentHTML_def ContentXML_def

text \<open>
  C5. When the encoding that \<open>JSON\<close> chooses (\<open>json.MarshalIndent\<close> with two spaces when
  \<open>IndentJSON\<close> is set, \<open>json.Marshal\<close> otherwise) succeeds with \<open>result\<close>, then
  \<open>JSON(200, v)\<close> changes nothing but the response, to which it adds: the header
  \<open>Content-Type\<close> set to \<open>application/json\<close> followed by the charset suffix, the status
  200, the configured prefix when it is not empty, and \<open>result\<close>; the bytes written are
  the prefix followed by \<open>result\<close>.
\<close>

theorem JSON_200_body:
  "(if IndentJSON (opt w) then json_MarshalIndent lib (heap w) v [] ''  ''
    else json_Marshal lib (heap w) v) = Inr result \<Longrightarrow>
   JSON lib 200 v w =
     w\<lparr>ResponseWriter := ResponseWriter w @
        [Header_Set ''Content-Type'' (''application/json'' @ compiledCharset w),
         WriteHeader 200]
        @ (if PrefixJSON (opt w) = [] then [] else [Write (PrefixJSON (opt w))])
        @ [Write result]\<rparr> \<and>
   written (new_calls w (JSON lib 200 v w)) = PrefixJSON (opt w) @ result"
  by (simp add: JSON_Inr new_calls_respond ContentType_def ContentJSON_def)
     (simp add: respond_def)

theorem JSON_200_body_witness:
  "json_Marshal example_lib (heap layout_world) VNil = Inr ''null'' \<and>
   IndentJSON (opt layout_world) = False \<and>
   ResponseWriter (JSON example_lib 200 VNil layout_world) =
     [Header_Set ''Content-Type'' ''application/json; charset=UTF-8'', WriteHeader 200,
      Write ''null''] \<and>
   written (new_calls layout_world (JSON example_lib 200 VNil layout_world)) = ''null''"
  using JSON_200_body [of layout_world example_lib VNil "''null''"]
  by (simp add: example_defs new_calls_def)

text \<open>
  C6, as stated, fails: the body of the reply is not the text of the error. For a value
  that the JSON encoder refuses, the bytes written are the text of the error followed
  by a newline.
\<close>

theorem serialization_failure_counterexample:
  "json_Marshal example_lib (heap layout_world) (VOther ()) =
     Inl (Lib_error ''json: unsupported type'') \<and>
   example_text (Lib_error ''json: unsupported type'') = ''json: unsupported type'' \<and>
   written (net_http example_text
              (new_calls layout_world (JSON example_lib 200 (VOther ()) layout_world))) =
     ''json: unsupported type'' @ [CHR 0x0A] \<and>
   written (net_http example_text
              (new_calls layout_world (JSON example_lib 200 (VOther ()) layout_world))) \<noteq>
     example_text (Lib_error ''json: unsupported type'')"
  by (simp add: example_defs JSON_def respond_def new_calls_def http_Error_calls_def)

text \<open>
  C6, amended. When the encoding that \<open>JSON\<close> (respectively \<open>XML\<close>) chooses fails with
  \<open>err\<close>, the call changes nothing but the response, to which it adds one call only,
  \<open>http.Error\<close> with the text of \<open>err\<close> and the status 500: on the writer, the headers
  \<open>Content-Type: text/plain; charset=utf-8\<close> and \<open>X-Content-Type-Options: nosniff\<close>,
  the status 500, and a body that is the text of \<open>err\<close> followed by a newline. No
  header, status, prefix or output of the success path is written.
\<close>

theorem serialization_failure_reply:
  "((if IndentJSON (opt w) then json_MarshalIndent lib (heap w) v [] ''  ''
     else json_Marshal lib (heap w) v) = Inl err \<longrightarrow>
    JSON lib status v w = w\<lparr>ResponseWriter := ResponseWriter w @ [http_Error err 500]\<rparr> \<and>
    net_http txt (new_calls w (JSON lib status v w)) =
      [Header_Set ''Content-Type'' ''text/plain; charset=utf-8'',
       Header_Set ''X-Content-Type-Options'' ''nosniff'',
       WriteHeader 500, Write (txt err @ [CHR 0x0A])] \<and>
    written (net_http txt (new_calls w (JSON lib status v w))) = txt err @ [CHR 0x0A]) \<and>
   ((if IndentXML (opt w) then xml_MarshalIndent lib (heap w) v [] ''  ''
     else xml_Marshal lib (heap w) v) = Inl err \<longrightarrow>
    XML lib status v w = w\<lparr>ResponseWriter := ResponseWriter w @ [http_Error err 500]\<rparr> \<and>
    net_http txt (new_calls w (XML lib status v w)) =
      [Header_Set ''Content-Type'' ''text/plain; charset=utf-8'',
       Header_Set ''X-Content-Type-Options'' ''nosniff'',
       WriteHeader 500, Write (txt err @ [CHR 0x0A])] \<and>
    written (net_http txt (new_calls w (XML lib status v w))) = txt err @ [CHR 0x0A])"
  by (simp add: JSON_Inl XML_Inl new_calls_respond http_Error_calls_def) (simp add: respond_def)

theorem serialization_failure_reply_witness:
  "json_Marshal example_lib (heap layout_world) (VOther ()) =
     Inl (Lib_error ''json: unsupported type'') \<and>
   xml_Marshal example_lib (heap layout_world) (VOther ()) =
     Inl (Lib_error ''xml: unsupported type'') \<and>
   ResponseWriter (JSON example_lib 200 (VOther ()) layout_world) =
     [http_Error (Lib_error ''json: unsupported type'') 500] \<and>
   net_http example_text (new_calls layout_world (JSON example_lib 200 (VOther ()) layout_world)) =
     [Header_Set ''Content-Type'' ''text/plain; charset=utf-8'',
      Header_Set ''X-Content-Type-Options'' ''nosniff'',
      WriteHeader 500, Write (''json: unsupported type'' @ [CHR 0x0A])] \<and>
   written (net_http example_text
              (new_calls layout_world (XML example_lib 200 (VOther ()) layout_world))) =
     ''xml: unsupported type'' @ [CHR 0x0A]"
proof -
  have j: "(if IndentJSON (opt layout_world)
            then json_MarshalIndent example_lib (heap layout_world) (VOther ()) [] ''  ''
            else json_Marshal example_lib (heap layout_world) (VOther ())) =
           Inl (Lib_error ''json: unsupported type'')"
    and x: "(if IndentXML (opt layout_world)
            then xml_MarshalIndent example_lib (heap layout_world) (VOther ()) [] ''  ''
            else xml_Marshal example_lib (heap layout_world) (VOther ())) =
           Inl (Lib_error ''xml: unsupported type'')"
    and j': "json_Marshal example_lib (heap layout_world) (VOther ()) =
     Inl (Lib_error ''json: unsupported type'')"
    and x': "xml_Marshal example_lib (heap layout_world) (VOther ()) =
     Inl (Lib_error ''xml: unsupported type'')"
    and r: "ResponseWriter layout_world = []"
    by (simp_all add: example_defs)
  note tj = serialization_failure_reply
    [of layout_world example_lib "VOther ()" "Lib_error ''json: unsupported type''" 200
       example_text]
  note tx = serialization_failure_reply
    [of layout_world example_lib "VOther ()" "Lib_error ''xml: unsupported type''" 200
       example_text]
  from tj j have 1: "JSON example_lib 200 (VOther ()) layout_world =
      layout_world\<lparr>ResponseWriter := ResponseWriter layout_world @
        [http_Error (Lib_error ''json: unsupported type'') 500]\<rparr>"
    and 2: "net_http example_text
        (new_calls layout_world (JSON example_lib 200 (VOther ()) layout_world)) =
      [Header_Set ''Content-Type'' ''text/plain; charset=utf-8'',
       Header_Set ''X-Content-Type-Options'' ''nosniff'',
       WriteHeader 500, Write (example_text (Lib_error ''json: unsupported type'') @ [CHR 0x0A])]"
    by blast+
  from tx x have 3: "written (net_http example_text
        (new_calls layout_world (XML example_lib 200 (VOther ()) layout_world))) =
      example_text (Lib_error ''xml: unsupported type'') @ [CHR 0x0A]"
    by blast
  from 1 r have rw: "ResponseWriter (JSON example_lib 200 (VOther ()) layout_world) =
     [http_Error (Lib_error ''json: unsupported type'') 500]" by simp
  from j' x' rw 2 3 show ?thesis by simp
qed

text \<open>
  C9. For every location, \<open>Redirect\<close> with no status makes the one call
  \<open>http.Redirect\<close> to that location with status 302, and \<open>Redirect\<close> with exactly one
  status makes it with that status; nothing but the response changes.
\<close>

theorem Redirect_status:
  "Redirect location [] w =
     w\<lparr>ResponseWriter := ResponseWriter w @ [http_Redirect location 302]\<rparr> \<and>
   Redirect location [status] w =
     w\<lparr>ResponseWriter := ResponseWriter w @ [http_Redirect location status]\<rparr> \<and>
   new_calls w (Redirect location [] w) = [http_Redirect location 302] \<and>
   new_calls w (Redirect location [status] w) = [http_Redirect location status]"
  by (simp add: Redirect_def StatusFound_def respond_def new_calls_def)

section \<open>getExt and the frame of an execution\<close>

lemma index_from_minus1: "index_from c s i = -1 \<longleftrightarrow> c \<notin> set s"
  by (induction s arbitrary: i) auto

lemma strings_Split_nonempty: "strings_Split s c \<noteq> []"
  by (induction s) (auto split: list.splits)

lemma strings_Join_Cons: "strings_Join ((x # w) # ws) c = x # strings_Join (w # ws) c"
  by (cases ws) auto

lemma strings_Join_Split: "strings_Join (strings_Split s c) c = s"
proof (induction s)
  case Nil
  show ?case by simp
next
  case (Cons x xs)
  obtain w ws where sp: "strings_Split xs c = w # ws"
    using strings_Split_nonempty [of xs c] by (cases "strings_Split xs c") auto
  show ?case
  proof (cases "x = c")
    case True
    with Cons sp show ?thesis by simp
  next
    case False
    with Cons sp show ?thesis by (simp add: strings_Join_Cons)
  qed
qed

lemma tl_Split:
  "c \<in> set s \<Longrightarrow> c # strings_Join (tl (strings_Split s c)) c = dropWhile (\<lambda>x. x \<noteq> c) s"
proof (induction s)
  case Nil
  then show ?case by simp
next
  case (Cons x xs)
  obtain w ws where sp: "strings_Split xs c = w # ws"
    using strings_Split_nonempty [of xs c] by (cases "strings_Split xs c") auto
  show ?case
  proof (cases "x = c")
    case True
    then show ?thesis by (simp add: strings_Join_Split)
  next
    case False
    with Cons sp show ?thesis by simp
  qed
qed

lemma getExt_dropWhile: "getExt s = dropWhile (\<lambda>x. x \<noteq> CHR ''.'') s"
proof (cases "CHR ''.'' \<in> set s")
  case True
  then show ?thesis
    by (simp add: getExt_def strings_Index_def index_from_minus1 tl_Split drop_Suc)
next
  case False
  then have dw: "dropWhile (\<lambda>x. x \<noteq> CHR ''.'') s = []" by auto
  from False have ge: "getExt s = []"
    by (simp add: getExt_def strings_Index_def index_from_minus1)
  show ?thesis by (simp only: ge dw)
qed

lemma tree_of_bufpool: "tree_of k (w\<lparr>bufpool := p\<rparr>) = tree_of k w"
  by (simp add: tree_of_def split: tree_kind.splits)

lemma exec_frame:
  "execute n k name b w = Some (r, w') \<Longrightarrow> \<exists>p. w' = w\<lparr>bufpool := p\<rparr>"
  "run_nodes n k t ns buf w = Some (r, w') \<Longrightarrow> \<exists>p. w' = w\<lparr>bufpool := p\<rparr>"
proof (induction n k name b w and n k t ns buf w arbitrary: r w' and r w'
       rule: execute_run_nodes.induct)
  case (1 k name binding w)
  then show ?case by simp
next
  case (2 n k name binding w)
  show ?case
  proof (cases "templates (tree_of k w) name")
    case None
    with 2 show ?thesis by (auto simp: tree_of_bufpool)
  next
    case (Some body)
    with 2 have "run_nodes n k name body [] (w\<lparr>bufpool := BufferPool_Get (bufpool w)\<rparr>) = Some (r, w')"
      by (simp add: tree_of_bufpool)
    from "2.IH" [OF refl _ this] Some
    obtain p where "w' = (w\<lparr>bufpool := BufferPool_Get (bufpool w)\<rparr>)\<lparr>bufpool := p\<rparr>"
      by (auto simp: tree_of_bufpool)
    then have "w' = w\<lparr>bufpool := p\<rparr>" by simp
    then show ?thesis by blast
  qed
next
  case (3 n k t buf w)
  then have "w' = w\<lparr>bufpool := bufpool w\<rparr>" by simp
  then show ?case by blast
next
  case (4 n k t s ns buf w)
  then show ?case by simp
next
  case (5 n k t ns buf w)
  then show ?case by simp
next
  case (6 n k t ns buf w)
  show ?case
  proof (cases "yield_fn (tree_of k w)")
    case Yield_placeholder
    with 6 have "w' = w\<lparr>bufpool := bufpool w\<rparr>" by auto
    then show ?thesis by blast
  next
    case (Yield_closure k' name' b')
    show ?thesis
    proof (cases "execute n k' name' b' w")
      case None
      with 6 Yield_closure show ?thesis by simp
    next
      case (Some res)
      obtain out e w1 where res: "res = ((out, e), w1)" by (cases res) auto
      from "6.IH"(1) [OF Yield_closure] Some res
      obtain p1 where w1: "w1 = w\<lparr>bufpool := p1\<rparr>" by auto
      show ?thesis
      proof (cases e)
        case None
        with 6 Yield_closure Some res
        have "run_nodes n k t ns (buf @ out) w1 = Some (r, w')" by simp
        from "6.IH"(2) [OF Yield_closure Some [unfolded res] _ _ _ this] None
        obtain p2 where "w' = w1\<lparr>bufpool := p2\<rparr>" by blast
        with w1 have "w' = w\<lparr>bufpool := p2\<rparr>" by simp
        then show ?thesis by blast
      next
        case (Some err)
        with 6 Yield_closure \<open>execute n k' name' b' w = Some res\<close> res w1
        have "w' = w\<lparr>bufpool := p1\<rparr>" by auto
        then show ?thesis by blast
      qed
    qed
  qed
qed

section \<open>HTML and TEXT: the execution and what it writes\<close>

lemma write_result_ok:
  "write_result status ((buf, None), w) =
     w\<lparr>ResponseWriter := ResponseWriter w @
          [Header_Set ContentType (HTMLContentType (opt w) @ compiledCharset w),
           WriteHeader status] @ (if buf = [] then [] else [Write buf]),
       bufpool := BufferPool_Put (bufpool w)\<rparr>"
  by (simp add: write_result_def respond_def)

lemma write_result_err:
  "write_result status ((buf, Some err), w) =
     w\<lparr>ResponseWriter := ResponseWriter w @ [http_Error err 500]\<rparr>"
  by (simp add: write_result_def respond_def StatusInternalServerError_def)

lemma ex_heap_id: "\<exists>h. w = w\<lparr>heap := h\<rparr>"
  by (rule exI [where x = "heap w"]) simp

lemma merge_binding_heap:
  assumes "merge_binding ex b w = Inr w2"
  shows "\<exists>h. w2 = w\<lparr>heap := h\<rparr>"
proof (cases b)
  case (VMap a)
  with assms have "w2 = w\<lparr>heap := (heap w)(a := merge_extra ex (heap w a))\<rparr>"
    by (simp add: merge_binding_def)
  then show ?thesis by blast
next
  case VNilMap
  with assms have "w2 = w" by (simp add: merge_binding_def split: if_splits)
  then show ?thesis by (simp add: ex_heap_id)
next
  case VNil
  with assms have "w2 = w" by (simp add: merge_binding_def)
  then show ?thesis by (simp add: ex_heap_id)
next
  case (VStr s)
  with assms have "w2 = w" by (simp add: merge_binding_def)
  then show ?thesis by (simp add: ex_heap_id)
next
  case (VOther x)
  with assms have "w2 = w" by (simp add: merge_binding_def)
  then show ?thesis by (simp add: ex_heap_id)
qed

lemma dump_binding_stdout: "\<exists>s. dump_binding lib b w = w\<lparr>stdout := s\<rparr>"
proof (cases "json_MarshalIndent lib (heap w) b [] '' ''")
  case (Inl e)
  then have "dump_binding lib b w = w\<lparr>stdout := stdout w\<rparr>" by (simp add: dump_binding_def)
  then show ?thesis by blast
next
  case (Inr bs)
  then have "dump_binding lib b w = w\<lparr>stdout := stdout w @ [bs]\<rparr>"
    by (simp add: dump_binding_def)
  then show ?thesis by blast
qed

text \<open>The state in which HTML starts the execution.\<close>

lemma HTML_Some_Inr:
  assumes "HTML fuel lib st name b ho w = Some (Inr w')"
  obtains h s res where
    "executeHtml fuel
       (if length (HTMLOptions_Layout (prepareHTMLOptions w ho)) > 0
        then HTMLOptions_Layout (prepareHTMLOptions w ho) else name) b
       ((if length (HTMLOptions_Layout (prepareHTMLOptions w ho)) > 0
         then addYieldHtml name b w else w)\<lparr>heap := h, stdout := s\<rparr>) = Some res"
    "w' = write_result st res"
proof -
  let ?o = "prepareHTMLOptions w ho"
  let ?w1 = "if length (HTMLOptions_Layout ?o) > 0 then addYieldHtml name b w else w"
  let ?n1 = "if length (HTMLOptions_Layout ?o) > 0 then HTMLOptions_Layout ?o else name"
  from assms obtain w2 where m: "merge_binding (HTMLOptions_Extra ?o) b ?w1 = Inr w2"
    by (cases "merge_binding (HTMLOptions_Extra ?o) b ?w1") (simp_all add: HTML_def Let_def)
  from assms m obtain res where
    e: "executeHtml fuel ?n1 b (dump_binding lib b w2) = Some res" and w': "w' = write_result st res"
    by (cases "executeHtml fuel ?n1 b (dump_binding lib b w2)") (simp_all add: HTML_def Let_def)
  from merge_binding_heap [OF m] obtain h where h: "w2 = ?w1\<lparr>heap := h\<rparr>" by blast
  from dump_binding_stdout [of lib b w2] obtain s where
    s: "dump_binding lib b w2 = w2\<lparr>stdout := s\<rparr>" by blast
  from e have "executeHtml fuel ?n1 b (w2\<lparr>stdout := s\<rparr>) = Some res"
    by (simp only: s)
  then have "executeHtml fuel ?n1 b (?w1\<lparr>heap := h, stdout := s\<rparr>) = Some res"
    by (simp only: h)
  then show thesis using w' by (rule that)
qed

lemma TEXT_Some:
  assumes "TEXT fuel st name b ho w = Some w'"
  obtains res where
    "executeText fuel
       (if length (HTMLOptions_Layout (prepareHTMLOptions w ho)) > 0
        then HTMLOptions_Layout (prepareHTMLOptions w ho) else name) b
       (if length (HTMLOptions_Layout (prepareHTMLOptions w ho)) > 0
        then addYieldText name b w else w) = Some res"
    "w' = write_result st res"
proof -
  let ?o = "prepareHTMLOptions w ho"
  let ?w1 = "if length (HTMLOptions_Layout ?o) > 0 then addYieldText name b w else w"
  let ?n1 = "if length (HTMLOptions_Layout ?o) > 0 then HTMLOptions_Layout ?o else name"
  from assms obtain res where "executeText fuel ?n1 b ?w1 = Some res" "w' = write_result st res"
    by (cases "executeText fuel ?n1 b ?w1") (simp_all add: TEXT_def Let_def)
  then show thesis by (rule that)
qed

text \<open>What a finished execution adds to the response.\<close>

lemma write_result_new_calls:
  assumes "wx = w3\<lparr>bufpool := p\<rparr>"
  shows "(\<exists>e. ResponseWriter (write_result st ((buf, r), wx)) =
              ResponseWriter w3 @ [http_Error e 500]) \<or>
         ResponseWriter (write_result st ((buf, r), wx)) =
           ResponseWriter w3 @
             [Header_Set ContentType (HTMLContentType (opt w3) @ compiledCharset w3), WriteHeader st]
             @ (if buf = [] then [] else [Write buf])"
proof (cases r)
  case None
  with assms show ?thesis by (simp add: write_result_ok)
next
  case (Some e)
  with assms show ?thesis by (simp add: write_result_err)
qed

section \<open>The charset suffix and the layout\<close>

lemma Renderer_handle_charset:
  assumes "Renderer lib fs options = Inr (h, bp)"
      and "handle lib h dev fs' res hp bp' out = Inr w"
  shows "compiledCharset w = prepareCharset (Charset (prepareOptions options))"
proof -
  from assms(1) have cs: "handler_cs h = prepareCharset (Charset (prepareOptions options))"
    by (auto simp: Renderer_def Let_def split: sum.splits)
  from assms(2) have "compiledCharset w = handler_cs h"
    by (auto simp: handle_def split: sum.splits if_splits)
  with cs show ?thesis by simp
qed

lemma prepareCharset_eq:
  "prepareCharset cs = ''; charset='' @ (if cs = [] then ''UTF-8'' else cs)"
  by (simp add: prepareCharset_def defaultCharset_def)

lemma HTML_new_calls:
  assumes "HTML fuel lib st name b ho w = Some (Inr w')"
  shows "(\<exists>e. new_calls w w' = [http_Error e 500]) \<or>
         (\<exists>buf. new_calls w w' =
            [Header_Set ContentType (HTMLContentType (opt w) @ compiledCharset w), WriteHeader st]
            @ (if buf = [] then [] else [Write buf]))"
proof -
  let ?w1 = "if length (HTMLOptions_Layout (prepareHTMLOptions w ho)) > 0
             then addYieldHtml name b w else w"
  from assms obtain h s res n1 where
    e: "executeHtml fuel n1 b (?w1\<lparr>heap := h, stdout := s\<rparr>) = Some res"
    and w': "w' = write_result st res"
    by (rule HTML_Some_Inr)
  let ?w3 = "?w1\<lparr>heap := h, stdout := s\<rparr>"
  have f: "ResponseWriter ?w3 = ResponseWriter w" "opt ?w3 = opt w"
    "compiledCharset ?w3 = compiledCharset w"
    by (simp_all add: addYieldHtml_def)
  obtain buf r wx where res: "res = ((buf, r), wx)" by (cases res) auto
  from e res have "execute fuel Escaping n1 b ?w3 = Some ((buf, r), wx)"
    by (simp add: executeHtml_def)
  from exec_frame(1) [OF this] obtain p where "wx = ?w3\<lparr>bufpool := p\<rparr>" by blast
  from write_result_new_calls [OF this, of st buf r] w' res f
  show ?thesis by (auto simp: new_calls_def)
qed

lemma TEXT_new_calls:
  assumes "TEXT fuel st name b ho w = Some w'"
  shows "(\<exists>e. new_calls w w' = [http_Error e 500]) \<or>
         (\<exists>buf. new_calls w w' =
            [Header_Set ContentType (HTMLContentType (opt w) @ compiledCharset w), WriteHeader st]
            @ (if buf = [] then [] else [Write buf]))"
proof -
  let ?w1 = "if length (HTMLOptions_Layout (prepareHTMLOptions w ho)) > 0
             then addYieldText name b w else w"
  from assms obtain res n1 where
    e: "executeText fuel n1 b ?w1 = Some res"
    and w': "w' = write_result st res"
    by (rule TEXT_Some)
  have f: "ResponseWriter ?w1 = ResponseWriter w" "opt ?w1 = opt w"
    "compiledCharset ?w1 = compiledCharset w"
    by (simp_all add: addYieldText_def)
  obtain buf r wx where res: "res = ((buf, r), wx)" by (cases res) auto
  from e res have "execute fuel Plain n1 b ?w1 = Some ((buf, r), wx)"
    by (simp add: executeText_def)
  from exec_frame(1) [OF this] obtain p where "wx = ?w1\<lparr>bufpool := p\<rparr>" by blast
  from write_result_new_calls [OF this, of st buf r] w' res f
  show ?thesis by (auto simp: new_calls_def)
qed

text \<open>
  C10. \<open>prepareCharset\<close> returns \<open>; charset=\<close> followed by the configured charset, or
  by \<open>UTF-8\<close> when none is configured; it is never empty. The renderer that \<open>Renderer\<close>
  and its handler build for a request, whatever the options and the mode, holds this
  suffix for the configured charset. On it, the first call of a successful \<open>JSON\<close> or
  \<open>XML\<close> sets \<open>Content-Type\<close> to the type followed by the suffix, and a call of \<open>HTML\<close>
  or \<open>TEXT\<close> that returns has either replied with \<open>http.Error\<close> only, or set
  \<open>Content-Type\<close> to the configured HTML content type followed by the suffix, then
  written the status and the buffer.
\<close>

theorem charset_always_set:
  assumes R: "Renderer lib fs options = Inr (h, bp)"
      and H: "handle lib h dev fs' res hp bp' out = Inr w"
  shows
    "prepareCharset cs = ''; charset='' @ (if cs = [] then ''UTF-8'' else cs) \<and>
     prepareCharset cs \<noteq> [] \<and>
     compiledCharset w = prepareCharset (Charset (prepareOptions options)) \<and>
     ((if IndentJSON (opt w) then json_MarshalIndent lib (heap w) v [] ''  ''
       else json_Marshal lib (heap w) v) = Inr result \<longrightarrow>
      hd (new_calls w (JSON lib st v w)) =
        Header_Set ''Content-Type''
          (''application/json'' @ prepareCharset (Charset (prepareOptions options)))) \<and>
     ((if IndentXML (opt w) then xml_MarshalIndent lib (heap w) v [] ''  ''
       else xml_Marshal lib (heap w) v) = Inr result \<longrightarrow>
      hd (new_calls w (XML lib st v w)) =
        Header_Set ''Content-Type''
          (''text/xml'' @ prepareCharset (Charset (prepareOptions options)))) \<and>
     (HTML fuel lib st name b ho w = Some (Inr w') \<longrightarrow>
      (\<exists>e. new_calls w w' = [http_Error e 500]) \<or>
      (\<exists>buf. new_calls w w' =
         [Header_Set ''Content-Type''
            (HTMLContentType (opt w) @ prepareCharset (Charset (prepareOptions options))),
          WriteHeader st] @ (if buf = [] then [] else [Write buf]))) \<and>
     (TEXT fuel st name b ho w = Some w' \<longrightarrow>
      (\<exists>e. new_calls w w' = [http_Error e 500]) \<or>
      (\<exists>buf. new_calls w w' =
         [Header_Set ''Content-Type''
            (HTMLContentType (opt w) @ prepareCharset (Charset (prepareOptions options))),
          WriteHeader st] @ (if buf = [] then [] else [Write buf])))"
proof -
  note cs = Renderer_handle_charset [OF R H]
  have 1: "prepareCharset cs = ''; charset='' @ (if cs = [] then ''UTF-8'' else cs)"
    by (rule prepareCharset_eq)
  have 2: "prepareCharset cs \<noteq> []" by (simp add: prepareCharset_eq)
  have 3: "(if IndentJSON (opt w) then json_MarshalIndent lib (heap w) v [] ''  ''
       else json_Marshal lib (heap w) v) = Inr result \<longrightarrow>
      hd (new_calls w (JSON lib st v w)) =
        Header_Set ''Content-Type''
          (''application/json'' @ prepareCharset (Charset (prepareOptions options)))"
    by (simp add: JSON_Inr new_calls_respond cs ContentType_def ContentJSON_def)
  have 4: "(if IndentXML (opt w) then xml_MarshalIndent lib (heap w) v [] ''  ''
       else xml_Marshal lib (heap w) v) = Inr result \<longrightarrow>
      hd (new_calls w (XML lib st v w)) =
        Header_Set ''Content-Type''
          (''text/xml'' @ prepareCharset (Charset (prepareOptions options)))"
    by (simp add: XML_Inr new_calls_respond cs ContentType_def ContentXML_def)
  have 5: "HTML fuel lib st name b ho w = Some (Inr w') \<longrightarrow>
      (\<exists>e. new_calls w w' = [http_Error e 500]) \<or>
      (\<exists>buf. new_calls w w' =
         [Header_Set ''Content-Type''
            (HTMLContentType (opt w) @ prepareCharset (Charset (prepareOptions options))),
          WriteHeader st] @ (if buf = [] then [] else [Write buf]))"
    using HTML_new_calls [of fuel lib st name b ho w w'] by (simp add: cs ContentType_def)
  have 6: "TEXT fuel st name b ho w = Some w' \<longrightarrow>
      (\<exists>e. new_calls w w' = [http_Error e 500]) \<or>
      (\<exists>buf. new_calls w w' =
         [Header_Set ''Content-Type''
            (HTMLContentType (opt w) @ prepareCharset (Charset (prepareOptions options))),
          WriteHeader st] @ (if buf = [] then [] else [Write buf]))"
    using TEXT_new_calls [of fuel st name b ho w w'] by (simp add: cs ContentType_def)
  from 1 2 cs 3 4 5 6 show ?thesis by blast
qed


lemma getExt_examples:
  "getExt ''.'' = ''.''" "getExt ''L.tmpl'' = ''.tmpl''" "getExt ''content.tmpl'' = ''.tmpl''"
  "getExt ''page.html.tmpl'' = ''.html.tmpl''"
  by (simp_all add: getExt_dropWhile)

lemma example_Parse_examples:
  "example_Parse [] [] ''Martini'' = Inr [NText ''Martini'']"
  "example_Parse [] [] ''hi'' = Inr [NText ''hi'']"
  "example_Parse [] [] ''L[{{yield}}]'' = Inr [NText ''L['', NYield, NText '']'']"
  by (simp_all add: example_Parse_def text_node_def action_node_def)

lemma compile_layout_files:
  "compile example_lib layout_files (prepareOptions []) = Inr (layout_tree, layout_tree)"
  by (simp add: compile_def walk_fn_def layout_files_def example_files_def example_lib_def
        prepareOptions_def zero_Options_def example_Rel_def getExt_examples
        example_Parse_examples filepath_ToSlash_def layout_tree_def Let_def)

lemma Renderer_layout_files:
  "Renderer example_lib layout_files [] = Inr (layout_handler, NewBufferPool 64)"
  by (simp add: Renderer_def compile_layout_files layout_handler_def Let_def
        prepareCharset_def defaultCharset_def)
     (simp add: prepareOptions_def zero_Options_def)

lemma handle_layout_files:
  "handle example_lib layout_handler False layout_files [] empty_heap (NewBufferPool 64) [] =
     Inr layout_world"
  by (simp add: handle_def layout_handler_def layout_world_def)


theorem charset_always_set_witness:
  "Renderer example_lib layout_files [] = Inr (layout_handler, NewBufferPool 64) \<and>
   handle example_lib layout_handler False layout_files [] empty_heap (NewBufferPool 64) [] =
     Inr layout_world \<and>
   prepareCharset [] = ''; charset=UTF-8'' \<and>
   compiledCharset layout_world = ''; charset=UTF-8'' \<and>
   hd (new_calls layout_world (JSON example_lib 200 VNil layout_world)) =
     Header_Set ''Content-Type'' ''application/json; charset=UTF-8'' \<and>
   hd (new_calls layout_world (XML example_lib 200 (VStr ''x'') layout_world)) =
     Header_Set ''Content-Type'' ''text/xml; charset=UTF-8''"
proof -
  note j = charset_always_set [OF Renderer_layout_files handle_layout_files,
             of "[]" VNil "''null''" 200]
  note x = charset_always_set [OF Renderer_layout_files handle_layout_files,
             of "[]" "VStr ''x''" "''<string>x</string>''" 200]
  have 1: "prepareCharset [] = ''; charset=UTF-8''"
    using j by simp
  have 2: "compiledCharset layout_world = ''; charset=UTF-8''"
    by (simp add: layout_world_def)
  have 3: "hd (new_calls layout_world (JSON example_lib 200 VNil layout_world)) =
     Header_Set ''Content-Type'' ''application/json; charset=UTF-8''"
    using j by (simp add: example_defs prepareCharset_def defaultCharset_def)
  have 4: "hd (new_calls layout_world (XML example_lib 200 (VStr ''x'') layout_world)) =
     Header_Set ''Content-Type'' ''text/xml; charset=UTF-8''"
    using x by (simp add: example_defs prepareCharset_def defaultCharset_def)
  from Renderer_layout_files handle_layout_files 1 2 3 4 show ?thesis by blast
qed

lemma html_escape_content: "html_escape ''content'' = ''content''"
  by (simp add: html_escape_def html_escape_char_def)

lemma layout_exec:
  assumes L: "templates (ht w) ''L'' = Some [NText ''L['', NYield, NText '']'']"
      and C: "templates (ht w) ''content'' = Some [NText ''hi'']"
      and Y: "yield_fn (ht w) = Yield_closure Escaping ''content'' b"
  shows "executeHtml (Suc (Suc n)) ''L'' b' w =
           Some ((''L[hi]'', None),
                 w\<lparr>bufpool := BufferPool_Get (BufferPool_Get (bufpool w))\<rparr>)"
  using L C Y by (simp add: tree_of_def executeHtml_def)

lemma dump_binding_fields:
  "ht (dump_binding lib b w) = ht w" "ResponseWriter (dump_binding lib b w) = ResponseWriter w"
  "opt (dump_binding lib b w) = opt w" "compiledCharset (dump_binding lib b w) = compiledCharset w"
  "bufpool (dump_binding lib b w) = bufpool w" "heap (dump_binding lib b w) = heap w"
  "tt (dump_binding lib b w) = tt w"
  by (simp_all add: dump_binding_def split: sum.splits)

text \<open>
  The layout render of \<open>HTML\<close>. When the escaping tree holds the layout \<open>L\<close> with body \<open>L[{{yield}}]\<close> (the text
  \<open>L[\<close>, a call of \<open>yield\<close>, the text \<open>]\<close>) and the template \<open>content\<close> with body \<open>hi\<close>,
  then \<open>HTML(200, "content", nil, {Layout: "L"})\<close> returns, with any bound of at least two
  nested executions, and adds to the response the content type, the status 200 and the
  body \<open>L[hi]\<close>. And in every render of \<open>content\<close> with a layout (the merge not
  panicking), \<open>HTML\<close> executes the layout in a state where \<open>current\<close> returns \<open>content\<close>,
  and a call of \<open>current\<close> in a template of the escaping tree prints \<open>content\<close> there.
\<close>

theorem layout_yield_current:
  "(templates (ht w) ''L'' = Some [NText ''L['', NYield, NText '']''] \<and>
    templates (ht w) ''content'' = Some [NText ''hi''] \<longrightarrow>
    (\<exists>w'. HTML (Suc (Suc n)) lib 200 ''content'' VNil
             [\<lparr>HTMLOptions_Layout = ''L'', HTMLOptions_Extra = ex\<rparr>] w = Some (Inr w') \<and>
           ResponseWriter w' = ResponseWriter w @
             [Header_Set ''Content-Type'' (HTMLContentType (opt w) @ compiledCharset w),
              WriteHeader 200, Write ''L[hi]''] \<and>
           written (new_calls w w') = ''L[hi]'')) \<and>
   (HTMLOptions_Layout (prepareHTMLOptions w ho) \<noteq> [] \<and>
    merge_binding (HTMLOptions_Extra (prepareHTMLOptions w ho)) b
      (addYieldHtml ''content'' b w) = Inr w2 \<longrightarrow>
    HTML fuel lib st ''content'' b ho w =
      (case executeHtml fuel (HTMLOptions_Layout (prepareHTMLOptions w ho)) b
              (dump_binding lib b w2) of
         None \<Rightarrow> None
       | Some res \<Rightarrow> Some (Inr (write_result st res))) \<and>
    current_fn (ht (dump_binding lib b w2)) = ''content'' \<and>
    run_nodes m Escaping t (NCurrent # ns) buf (dump_binding lib b w2) =
      run_nodes m Escaping t ns (buf @ ''content'') (dump_binding lib b w2))"
proof (intro conjI impI)
  assume a: "templates (ht w) ''L'' = Some [NText ''L['', NYield, NText '']''] \<and>
    templates (ht w) ''content'' = Some [NText ''hi'']"
  let ?w3 = "dump_binding lib VNil (addYieldHtml ''content'' VNil w)"
  have "executeHtml (Suc (Suc n)) ''L'' VNil ?w3 =
          Some ((''L[hi]'', None), ?w3\<lparr>bufpool := BufferPool_Get (BufferPool_Get (bufpool ?w3))\<rparr>)"
    using a by (intro layout_exec) (simp_all add: dump_binding_fields addYieldHtml_def)
  then show "\<exists>w'. HTML (Suc (Suc n)) lib 200 ''content'' VNil
             [\<lparr>HTMLOptions_Layout = ''L'', HTMLOptions_Extra = ex\<rparr>] w = Some (Inr w') \<and>
           ResponseWriter w' = ResponseWriter w @
             [Header_Set ''Content-Type'' (HTMLContentType (opt w) @ compiledCharset w),
              WriteHeader 200, Write ''L[hi]''] \<and>
           written (new_calls w w') = ''L[hi]''"
    by (simp add: HTML_def prepareHTMLOptions_def merge_binding_def write_result_ok
          new_calls_def ContentType_def dump_binding_fields)
       (simp add: addYieldHtml_def)
next
  assume a: "HTMLOptions_Layout (prepareHTMLOptions w ho) \<noteq> [] \<and>
    merge_binding (HTMLOptions_Extra (prepareHTMLOptions w ho)) b
      (addYieldHtml ''content'' b w) = Inr w2"
  then show "HTML fuel lib st ''content'' b ho w =
      (case executeHtml fuel (HTMLOptions_Layout (prepareHTMLOptions w ho)) b
              (dump_binding lib b w2) of
         None \<Rightarrow> None
       | Some res \<Rightarrow> Some (Inr (write_result st res)))"
    by (simp add: HTML_def Let_def)
  from a obtain h where h: "w2 = (addYieldHtml ''content'' b w)\<lparr>heap := h\<rparr>"
    using merge_binding_heap by blast
  then show c: "current_fn (ht (dump_binding lib b w2)) = ''content''"
    by (simp add: dump_binding_fields addYieldHtml_def)
  then show "run_nodes m Escaping t (NCurrent # ns) buf (dump_binding lib b w2) =
      run_nodes m Escaping t ns (buf @ ''content'') (dump_binding lib b w2)"
    by (simp add: tree_of_def print_string_def html_escape_content)
qed

section \<open>Runs on the renderer of the two templates\<close>

lemmas world_eval =
  layout_world_def layout_tree_def tree_define_def tree_New_def prepareOptions_def
  zero_Options_def empty_heap_def NewBufferPool_def BufferPool_Get_def BufferPool_Put_def
  HTML_def TEXT_def prepareHTMLOptions_def merge_binding_def dump_binding_def
  addYieldHtml_def addYieldText_def executeHtml_def executeText_def tree_of_def
  write_result_def respond_def example_lib_def example_json_def print_string_def
  ContentType_def ContentHTML_def StatusInternalServerError_def Let_def

theorem layout_yield_current_witness:
  "compile example_lib layout_files (prepareOptions []) =
     Inr (ht layout_world, tt layout_world) \<and>
   templates (ht layout_world) ''L'' = Some [NText ''L['', NYield, NText '']''] \<and>
   templates (ht layout_world) ''content'' = Some [NText ''hi''] \<and>
   (\<exists>w'. HTML (Suc (Suc 0)) example_lib 200 ''content'' VNil
           [\<lparr>HTMLOptions_Layout = ''L'', HTMLOptions_Extra = []\<rparr>] layout_world =
           Some (Inr w') \<and>
         ResponseWriter w' =
           [Header_Set ''Content-Type'' ''text/html; charset=UTF-8'', WriteHeader 200,
            Write ''L[hi]'']) \<and>
   current_fn (ht (dump_binding example_lib VNil (addYieldHtml ''content'' VNil layout_world))) =
     ''content''"
proof -
  note t = layout_yield_current
    [where w = layout_world and n = 0 and lib = example_lib and ex = "[]"
       and ho = "[\<lparr>HTMLOptions_Layout = ''L'', HTMLOptions_Extra = []\<rparr>]" and b = VNil
       and ?w2.0 = "addYieldHtml ''content'' VNil layout_world"]
  have 1: "compile example_lib layout_files (prepareOptions []) =
     Inr (ht layout_world, tt layout_world)"
    by (simp add: compile_layout_files layout_world_def)
  have 2: "templates (ht layout_world) ''L'' = Some [NText ''L['', NYield, NText '']'']"
    and 3: "templates (ht layout_world) ''content'' = Some [NText ''hi'']"
    by (simp_all add: layout_world_def layout_tree_def tree_define_def)
  from t 2 3 have "\<exists>w'. HTML (Suc (Suc 0)) example_lib 200 ''content'' VNil
           [\<lparr>HTMLOptions_Layout = ''L'', HTMLOptions_Extra = []\<rparr>] layout_world =
           Some (Inr w') \<and>
         ResponseWriter w' = ResponseWriter layout_world @
           [Header_Set ''Content-Type''
              (HTMLContentType (opt layout_world) @ compiledCharset layout_world),
            WriteHeader 200, Write ''L[hi]'']"
    by blast
  moreover have "ResponseWriter layout_world = []"
    "HTMLContentType (opt layout_world) = ''text/html''"
    "compiledCharset layout_world = ''; charset=UTF-8''"
    by (simp_all add: layout_world_def prepareOptions_def zero_Options_def ContentHTML_def)
  ultimately have 4: "\<exists>w'. HTML (Suc (Suc 0)) example_lib 200 ''content'' VNil
           [\<lparr>HTMLOptions_Layout = ''L'', HTMLOptions_Extra = []\<rparr>] layout_world =
           Some (Inr w') \<and>
         ResponseWriter w' =
           [Header_Set ''Content-Type'' ''text/html; charset=UTF-8'', WriteHeader 200,
            Write ''L[hi]'']"
    by simp
  from t have 5: "current_fn (ht (dump_binding example_lib VNil
                    (addYieldHtml ''content'' VNil layout_world))) = ''content''"
    by (simp add: prepareHTMLOptions_def merge_binding_def)
  from 1 2 3 4 5 show ?thesis by blast
qed

text \<open>
  C1, at \<open>TEXT(200, "content", nil, {Layout: "L"})\<close> on the renderer of the two templates:
  \<open>addYieldText\<close> installs its helpers in the escaping tree, so the plain tree keeps the
  placeholders, the execution of the layout \<open>L\<close> from the plain tree fails at its call
  of \<open>yield\<close>, and the reply is \<open>http.Error\<close> with status 500.
\<close>

theorem TEXT_layout_placeholder:
  "\<exists>w'. TEXT (Suc n) 200 ''content'' VNil
          [\<lparr>HTMLOptions_Layout = ''L'', HTMLOptions_Extra = []\<rparr>] layout_world = Some w' \<and>
        ResponseWriter w' = [http_Error (Exec_error ''L'' Yield_no_layout) 500] \<and>
        yield_fn (tt w') = Yield_placeholder \<and> current_fn (tt w') = [] \<and>
        yield_fn (ht w') = Yield_closure Plain ''content'' VNil \<and>
        current_fn (ht w') = ''content''"
  by (simp add: world_eval)

text \<open>
  C2, on the renderer of the two templates: when the execution fails (no template
  \<open>missing\<close>), \<open>HTML\<close> has taken one buffer from the pool and returned none; in a render
  with the layout \<open>L\<close>, two buffers are taken (one of them by the \<open>yield\<close> helper) and one
  is returned.
\<close>

theorem buffer_not_returned:
  "(\<exists>w'. HTML (Suc n) example_lib 200 ''missing'' VNil [] layout_world = Some (Inr w') \<and>
         ResponseWriter w' = [http_Error (Undefined_template ''missing'') 500] \<and>
         gets (bufpool w') = 1 \<and> puts (bufpool w') = 0) \<and>
   (\<exists>w'. HTML (Suc (Suc n)) example_lib 200 ''content'' VNil
           [\<lparr>HTMLOptions_Layout = ''L'', HTMLOptions_Extra = []\<rparr>] layout_world =
           Some (Inr w') \<and>
         written (ResponseWriter w') = ''L[hi]'' \<and>
         gets (bufpool w') = 2 \<and> puts (bufpool w') = 1)"
  by (simp add: world_eval)

lemma example_Parse_current:
  "example_Parse [] [] ''[{{current}}]'' = Inr [NText ''['', NCurrent, NText '']'']"
  by (simp add: example_Parse_def text_node_def action_node_def)

text \<open>
  C7, at \<open>TEXT(200, "content", nil, {Layout: "C"})\<close> on the renderer whose layout \<open>C\<close> has
  the body \<open>[{{current}}]\<close>: \<open>addYieldText\<close> installs its helpers in the escaping tree,
  so the layout, executed from the plain tree, calls the placeholder of \<open>current\<close>, which
  returns the empty string, and the body written is \<open>[]\<close>. \<open>HTML\<close> at the same input
  writes \<open>[content]\<close>.
\<close>

theorem TEXT_layout_current_empty:
  "example_Parse [] [] ''[{{current}}]'' = Inr [NText ''['', NCurrent, NText '']''] \<and>
   (\<exists>w'. HTML (Suc n) example_lib 200 ''content'' VNil
           [\<lparr>HTMLOptions_Layout = ''C'', HTMLOptions_Extra = []\<rparr>] current_world =
           Some (Inr w') \<and>
         written (ResponseWriter w') = ''[content]'' \<and> current_fn (ht w') = ''content'') \<and>
   (\<exists>w'. TEXT (Suc n) 200 ''content'' VNil
           [\<lparr>HTMLOptions_Layout = ''C'', HTMLOptions_Extra = []\<rparr>] current_world = Some w' \<and>
         ResponseWriter w' =
           [Header_Set ''Content-Type'' ''text/html; charset=UTF-8'', WriteHeader 200,
            Write ''[]''] \<and>
         current_fn (tt w') = [] \<and> current_fn (ht w') = ''content'')"
  by (simp add: example_Parse_current)
     (simp add: world_eval current_world_def current_tree_def html_escape_content)

section \<open>The merge of the extra pairs\<close>

lemma merge_extra_lookup:
  "merge_extra kvs m k =
     (case map_of (rev kvs) k of Some v \<Rightarrow> Some (VStr v) | None \<Rightarrow> m k)"
proof (induction kvs arbitrary: m)
  case Nil
  show ?case by simp
next
  case (Cons kv kvs)
  obtain k' v' where kv: "kv = (k', v')" by (cases kv)
  show ?case
    by (simp add: kv Cons.IH map_add_def split: option.splits)
qed

lemma write_result_heap: "heap (write_result st ((buf, r), w)) = heap w"
  by (cases r) (simp_all add: write_result_ok write_result_err)

lemma HTML_heap:
  assumes "HTML fuel lib st name (VMap a) ho w = Some (Inr w')"
  shows "heap w' =
           (heap w)(a := merge_extra (HTMLOptions_Extra (prepareHTMLOptions w ho)) (heap w a))"
proof -
  let ?o = "prepareHTMLOptions w ho"
  let ?w1 = "if length (HTMLOptions_Layout ?o) > 0 then addYieldHtml name (VMap a) w else w"
  let ?n1 = "if length (HTMLOptions_Layout ?o) > 0 then HTMLOptions_Layout ?o else name"
  let ?w2 = "?w1\<lparr>heap := (heap ?w1)(a := merge_extra (HTMLOptions_Extra ?o) (heap ?w1 a))\<rparr>"
  from assms obtain res where
    e: "executeHtml fuel ?n1 (VMap a) (dump_binding lib (VMap a) ?w2) = Some res"
    and w': "w' = write_result st res"
    by (cases "executeHtml fuel ?n1 (VMap a) (dump_binding lib (VMap a) ?w2)")
       (simp_all add: HTML_def Let_def merge_binding_def)
  obtain buf r wx where res: "res = ((buf, r), wx)" by (cases res) auto
  from e res have "execute fuel Escaping ?n1 (VMap a) (dump_binding lib (VMap a) ?w2) =
    Some ((buf, r), wx)" by (simp add: executeHtml_def)
  from exec_frame(1) [OF this] obtain p where
    "wx = (dump_binding lib (VMap a) ?w2)\<lparr>bufpool := p\<rparr>" by blast
  then have "heap wx = heap ?w2" by (simp add: dump_binding_fields)
  with w' res have "heap w' = heap ?w2" by (simp add: write_result_heap)
  then show ?thesis by (simp add: addYieldHtml_def)
qed

lemma TEXT_heap:
  assumes "TEXT fuel st name b ho w = Some w'"
  shows "heap w' = heap w"
proof -
  let ?w1 = "if length (HTMLOptions_Layout (prepareHTMLOptions w ho)) > 0
             then addYieldText name b w else w"
  from assms obtain res n1 where
    e: "executeText fuel n1 b ?w1 = Some res" and w': "w' = write_result st res"
    by (rule TEXT_Some)
  obtain buf r wx where res: "res = ((buf, r), wx)" by (cases res) auto
  from e res have "execute fuel Plain n1 b ?w1 = Some ((buf, r), wx)"
    by (simp add: executeText_def)
  from exec_frame(1) [OF this] obtain p where "wx = ?w1\<lparr>bufpool := p\<rparr>" by blast
  then have "heap wx = heap w" by (simp add: addYieldText_def)
  with w' res show ?thesis by (simp add: write_result_heap)
qed

lemma heap_ht_commute:
  "(w\<lparr>ht := t\<rparr>)\<lparr>heap := h\<rparr> = (w\<lparr>heap := h\<rparr>)\<lparr>ht := t\<rparr>"
  by (cases w) simp

lemma prepareHTMLOptions_heap:
  "prepareHTMLOptions (w\<lparr>heap := h\<rparr>) ho = prepareHTMLOptions w ho"
  by (simp add: prepareHTMLOptions_def split: list.splits)

lemma prepareHTMLOptions_given: "prepareHTMLOptions w [x] = x"
  by (simp add: prepareHTMLOptions_def)

lemma HTML_merge_first:
  "HTML fuel lib st name (VMap a) ho w =
     HTML fuel lib st name (VMap a)
       [(prepareHTMLOptions w ho)\<lparr>HTMLOptions_Extra := []\<rparr>]
       (w\<lparr>heap := (heap w)(a := merge_extra (HTMLOptions_Extra (prepareHTMLOptions w ho))
                                  (heap w a))\<rparr>)"
  by (simp add: HTML_def Let_def merge_binding_def prepareHTMLOptions_given addYieldHtml_def
        heap_ht_commute)

text \<open>
  C3, as stated, fails: after \<open>HTML(200, "content", m, {Extra: {"k": "v"}})\<close> with \<open>m\<close> an
  empty \<open>map[string]interface{}\<close>, the map the caller passed holds \<open>k\<close>.
\<close>

theorem HTML_merge_counterexample:
  "(case HTML (Suc 0) example_lib 200 ''content'' (VMap 0)
           [\<lparr>HTMLOptions_Layout = [], HTMLOptions_Extra = [(''k'', ''v'')]\<rparr>] layout_world of
      Some (Inr w') \<Rightarrow>
        heap layout_world 0 ''k'' = None \<and> heap w' 0 ''k'' = Some (VStr ''v'') \<and>
        written (ResponseWriter w') = ''hi''
    | _ \<Rightarrow> False)"
  by (simp add: world_eval)

text \<open>
  C3, amended. For every \<open>HTML\<close> call whose binding is a (non-nil)
  \<open>map[string]interface{}\<close>, the effective extra pairs are assigned into the map the
  caller passed, before the dump and the execution: the call is the same as the call
  with no extra pairs on the store where that map already holds them, and when it
  returns, that map holds, for every extra key, the string of its (last) extra pair and
  its old entries elsewhere, all other maps being unchanged. \<open>TEXT\<close> leaves the store of
  maps unchanged.
\<close>

theorem HTML_merges_in_place:
  "HTML fuel lib st name (VMap a) ho w =
     HTML fuel lib st name (VMap a)
       [(prepareHTMLOptions w ho)\<lparr>HTMLOptions_Extra := []\<rparr>]
       (w\<lparr>heap := (heap w)(a := merge_extra (HTMLOptions_Extra (prepareHTMLOptions w ho))
                                  (heap w a))\<rparr>) \<and>
   (HTML fuel lib st name (VMap a) ho w = Some (Inr w') \<longrightarrow>
    heap w' =
      (heap w)(a := merge_extra (HTMLOptions_Extra (prepareHTMLOptions w ho)) (heap w a))) \<and>
   merge_extra kvs m k =
     (case map_of (rev kvs) k of Some v \<Rightarrow> Some (VStr v) | None \<Rightarrow> m k) \<and>
   (TEXT fuel st name b ho w = Some w'' \<longrightarrow> heap w'' = heap w)"
  using HTML_merge_first [of fuel lib st name a ho w] HTML_heap [of fuel lib st name a ho w w']
    merge_extra_lookup [of kvs m k] TEXT_heap [of fuel st name b ho w w'']
  by blast

theorem HTML_merges_in_place_witness:
  "(\<exists>w'. HTML (Suc 0) example_lib 200 ''content'' (VMap 0)
           [\<lparr>HTMLOptions_Layout = [], HTMLOptions_Extra = [(''k'', ''v'')]\<rparr>] layout_world =
           Some (Inr w') \<and>
         heap w' = (heap layout_world)(0 := [''k'' \<mapsto> VStr ''v''])) \<and>
   (\<exists>w'. TEXT (Suc 0) 200 ''content'' (VMap 0)
           [\<lparr>HTMLOptions_Layout = [], HTMLOptions_Extra = [(''k'', ''v'')]\<rparr>] layout_world =
           Some w' \<and>
         heap w' = heap layout_world)"
proof -
  obtain w' where h: "HTML (Suc 0) example_lib 200 ''content'' (VMap 0)
           [\<lparr>HTMLOptions_Layout = [], HTMLOptions_Extra = [(''k'', ''v'')]\<rparr>] layout_world =
           Some (Inr w')"
    by (simp add: world_eval)
  obtain w'' where t: "TEXT (Suc 0) 200 ''content'' (VMap 0)
           [\<lparr>HTMLOptions_Layout = [], HTMLOptions_Extra = [(''k'', ''v'')]\<rparr>] layout_world =
           Some w''"
    by (simp add: world_eval)
  note m = HTML_merges_in_place
    [where fuel = "Suc 0" and lib = example_lib and st = 200 and name = "''content''"
       and a = 0 and w = layout_world and w' = w' and w'' = w'' and b = "VMap 0"
       and ho = "[\<lparr>HTMLOptions_Layout = [], HTMLOptions_Extra = [(''k'', ''v'')]\<rparr>]"]
  from m h have "heap w' = (heap layout_world)
      (0 := merge_extra
         (HTMLOptions_Extra (prepareHTMLOptions layout_world
            [\<lparr>HTMLOptions_Layout = [], HTMLOptions_Extra = [(''k'', ''v'')]\<rparr>]))
         (heap layout_world 0))"
    by blast
  then have 1: "heap w' = (heap layout_world)(0 := [''k'' \<mapsto> VStr ''v''])"
    by (simp add: prepareHTMLOptions_given layout_world_def empty_heap_def)
  from m t have 2: "heap w'' = heap layout_world" by blast
  from h 1 t 2 show ?thesis by blast
qed

section \<open>The walk of compile\<close>







section \<open>What compile registers\<close>


text \<open>
  Where no directory of a relative path has a \<open>.\<close> in its name, \<open>getExt\<close> is the extension
  of the file and the registered name is the path without it. Below a directory such as
  \<open>v1.0\<close> it is not: \<open>getExt\<close> starts at the \<open>.\<close> of the directory.
\<close>

lemma getExt_dotted_directory:
  "getExt ''v1.0/page.tmpl'' = ''.0/page.tmpl'' \<and>
   file_ext example_lib ''v1.0/page.tmpl'' = ''.tmpl''"
  by (simp add: getExt_dropWhile file_ext_def file_name_def example_lib_def)













section \<open>Errors of the walk\<close>

















end
